theory Spec2Isabelle
  imports Main "HOL-Library.Sublist"
begin

section \<open>Values, requests and observable events\<close>

text \<open>
  The client is a set of React components whose event handlers are \<open>async\<close> functions:
  they read the component state captured at the start of the handler, call the gateway
  modules under \<open>src/FE/src/api\<close>, and update the state. A handler is modelled as a function
  from the state at its start and from the outcome of every network call it may await to
  the state after it has settled and the list of events it produced, in order.
  Strings are \<open>string\<close>; a character stands for one code unit below 256.
\<close>

datatype js_error = AxiosError (message: string) | TypeError (message: string)

text \<open>What an awaited promise settles to: the response body, or the thrown error.\<close>

datatype 'a outcome = Resolved 'a | Rejected js_error

text \<open>A browser \<open>File\<close>: only the fields the client reads.\<close>

record js_file =
  name :: string
  size_bytes :: nat

text \<open>The JSON body of \<open>POST /agent/chat\<close>; \<open>db_name = None\<close> is JSON \<open>null\<close>.\<close>

record chat_body =
  user_id :: string
  session_id :: string
  query :: string
  db_name :: "string option"

text \<open>One constructor per gateway call the two pages make, carrying its arguments.\<close>

datatype request =
    UploadPdf js_file string
  | IndexBook string string bool
  | ListCollections
  | DeleteCollection string
  | DeleteProcessedBook string string
  | AgentChat chat_body
  | DeleteSession string string

datatype http_method = GET | POST | DELETE

datatype payload =
    NoBody
  | Params string
  | Multipart js_file string
  | IndexJson string string bool
  | ChatJson chat_body

text \<open>The method, path and payload each call puts on the wire (\<open>api/pdf.js\<close>,
  the embedding module that follows it, \<open>api/agent.js\<close>).\<close>

fun wire :: "request \<Rightarrow> http_method \<times> string \<times> payload" where
  "wire (UploadPdf file userId) = (POST, ''/pdf/upload'', Multipart file userId)"
| "wire (IndexBook bookName userId forceReindex) =
     (POST, ''/embedding/index-book'', IndexJson bookName userId forceReindex)"
| "wire ListCollections = (GET, ''/embedding/collections'', NoBody)"
| "wire (DeleteCollection collectionName) =
     (DELETE, ''/embedding/collection/'' @ collectionName, NoBody)"
| "wire (DeleteProcessedBook bookName userId) =
     (DELETE, ''/pdf/delete/'' @ bookName, Params userId)"
| "wire (AgentChat b) = (POST, ''/agent/chat'', ChatJson b)"
| "wire (DeleteSession userId sessionId) =
     (DELETE, ''/agent/session/'' @ userId @ ''/'' @ sessionId, NoBody)"

text \<open>\<open>agentService.chat(userId, sessionId, query, dbName = null)\<close>: the default only
  replaces \<open>undefined\<close>, so a \<open>null\<close> argument is sent as \<open>null\<close>.\<close>

definition agentService_chat :: "string \<Rightarrow> string \<Rightarrow> string \<Rightarrow> string option \<Rightarrow> request" where
  "agentService_chat userId sessionId q dbName =
     AgentChat \<lparr>user_id = userId, session_id = sessionId, query = q, db_name = dbName\<rparr>"

definition agentService_deleteSession :: "string \<Rightarrow> string \<Rightarrow> request" where
  "agentService_deleteSession userId sessionId = DeleteSession userId sessionId"

definition pdfService_uploadPdf :: "js_file \<Rightarrow> string \<Rightarrow> request" where
  "pdfService_uploadPdf file userId = UploadPdf file userId"

definition pdfService_deleteProcessedBook :: "string \<Rightarrow> string \<Rightarrow> request" where
  "pdfService_deleteProcessedBook bookName userId = DeleteProcessedBook bookName userId"

text \<open>\<open>indexBook(bookName, userId, forceReindex = false)\<close>: the pages pass two arguments.\<close>

definition embeddingService_indexBook :: "string \<Rightarrow> string \<Rightarrow> request" where
  "embeddingService_indexBook bookName userId = IndexBook bookName userId False"

definition embeddingService_listCollections :: request where
  "embeddingService_listCollections = ListCollections"

definition embeddingService_deleteCollection :: "string \<Rightarrow> request" where
  "embeddingService_deleteCollection collectionName = DeleteCollection collectionName"

text \<open>What a handler does that can be observed from outside, in order.\<close>

datatype event =
    Issued request
  | Fulfilled request
  | Failed request js_error
  | ConsoleError string js_error
  | Alert string
  | Confirm string

text \<open>\<open>await call\<close>: the request goes out, then settles; a rejection is thrown.\<close>

definition await :: "request \<Rightarrow> 'a outcome \<Rightarrow> event list \<Rightarrow> (js_error + 'a) \<times> event list" where
  "await r out log =
     (case out of
        Resolved v \<Rightarrow> (Inr v, log @ [Issued r, Fulfilled r])
      | Rejected e \<Rightarrow> (Inl e, log @ [Issued r, Failed r e]))"

fun issued :: "event list \<Rightarrow> request list" where
  "issued [] = []"
| "issued (Issued r # evs) = r # issued evs"
| "issued (ev # evs) = issued evs"

text \<open>What the user or the console is told: the console lines and the alert boxes.\<close>

fun report :: "event list \<Rightarrow> event list" where
  "report [] = []"
| "report (ConsoleError l e # evs) = ConsoleError l e # report evs"
| "report (Alert t # evs) = Alert t # report evs"
| "report (ev # evs) = report evs"

section \<open>JavaScript string operations the handlers use\<close>

text \<open>\<open>String.prototype.trim\<close> removes white space and line terminators from both ends:
  TAB, LF, VT, FF, CR, SPACE and NBSP among the code units below 256.\<close>

definition js_whitespace :: "char \<Rightarrow> bool" where
  "js_whitespace c = (of_char c \<in> {9, 10, 11, 12, 13, 32, 160 :: nat})"

definition trim :: "string \<Rightarrow> string" where
  "trim s = rev (dropWhile js_whitespace (rev (dropWhile js_whitespace s)))"

text \<open>\<open>s.replace(pat, rep)\<close> with a string pattern: the first occurrence of \<open>pat\<close>,
  scanning from the left, is replaced; \<open>s\<close> is returned as it is when there is none.
  (The replacement used by the client, \<open>''\<close>, has no \<open>$\<close> pattern.)\<close>

fun replace :: "string \<Rightarrow> string \<Rightarrow> string \<Rightarrow> string" where
  "replace pat rep [] = (if pat = [] then rep else [])"
| "replace pat rep (c # cs) =
     (if prefix pat (c # cs) then rep @ drop (length pat) (c # cs)
      else c # replace pat rep cs)"

section \<open>Chat page (\<open>pages/Chat.jsx\<close>)\<close>

datatype role = User | Assistant | System

record chat_message =
  role :: role
  content :: string
  artifacts :: "string list option"

text \<open>The body of a chat reply: \<open>response.response\<close> and \<open>response.artifacts\<close>
  (\<open>None\<close> when the reply has no artifacts field).\<close>

record chat_reply =
  response :: string
  reply_artifacts :: "string list option"

record collection =
  name_c :: string
  total_chapters :: nat
  total_images :: nat

text \<open>The \<open>useState\<close> cells of \<open>Chat\<close>.\<close>

record chat_state =
  messages :: "chat_message list"
  input :: string
  loading_c :: bool
  collections :: "collection list"
  selectedCollection :: "string option"

text \<open>\<open>handleSend\<close> up to its \<open>await\<close>: the guard, the optimistic append, and the
  request that goes out. \<open>None\<close> is the early \<open>return\<close>; \<open>!userId\<close> holds of the empty
  string, which is what \<open>useAuth\<close> gives until its effect has run. (\<open>e.preventDefault()\<close>
  only stops the browser from submitting the form and touches no state.)\<close>

definition handleSend_begin :: "string \<Rightarrow> chat_state \<Rightarrow> (chat_state \<times> request) option" where
  "handleSend_begin userId st =
     (if trim (input st) = [] \<or> userId = [] then None
      else
        let userMessage = \<lparr>role = User, content = input st, artifacts = None\<rparr>;
            st1 = st\<lparr>messages := messages st @ [userMessage], input := [], loading_c := True\<rparr>
        in Some (st1, agentService_chat userId userId (content userMessage) (selectedCollection st)))"

text \<open>\<open>handleSend\<close> from the moment the call settles: \<open>try\<close> continuation, \<open>catch\<close>,
  \<open>finally\<close>. A \<open>null\<close> body (\<open>None\<close>) makes \<open>response.response\<close> throw inside the
  \<open>try\<close>. The updaters \<open>prev => [...prev, m]\<close> act on the state of that moment.\<close>

definition handleSend_settle :: "request \<Rightarrow> chat_reply option outcome \<Rightarrow> chat_state \<Rightarrow> chat_state \<times> event list" where
  "handleSend_settle req out st1 =
     (let failure = \<lparr>role = System, content = ''Error: Failed to get response from agent.'',
                     artifacts = None\<rparr>
      in case out of
           Resolved (Some r) \<Rightarrow>
             (let botMessage = \<lparr>role = Assistant, content = response r,
                                artifacts = reply_artifacts r\<rparr>
              in (st1\<lparr>messages := messages st1 @ [botMessage], loading_c := False\<rparr>,
                  [Fulfilled req]))
         | Resolved None \<Rightarrow>
             (st1\<lparr>messages := messages st1 @ [failure], loading_c := False\<rparr>,
              [Fulfilled req, ConsoleError ''Chat failed:'' (TypeError ''response is null'')])
         | Rejected e \<Rightarrow>
             (st1\<lparr>messages := messages st1 @ [failure], loading_c := False\<rparr>,
              [Failed req e, ConsoleError ''Chat failed:'' e]))"

definition handleSend :: "string \<Rightarrow> chat_reply option outcome \<Rightarrow> chat_state \<Rightarrow> chat_state \<times> event list" where
  "handleSend userId out st =
     (case handleSend_begin userId st of
        None \<Rightarrow> (st, [])
      | Some (st1, req) \<Rightarrow>
          (let (st2, evs) = handleSend_settle req out st1 in (st2, Issued req # evs)))"

text \<open>\<open>handleClearSession\<close>; \<open>answer\<close> is what the user answers to the confirm dialog.\<close>

definition handleClearSession :: "string \<Rightarrow> bool \<Rightarrow> unit outcome \<Rightarrow> chat_state \<Rightarrow> chat_state \<times> event list" where
  "handleClearSession userId answer out st =
     (if \<not> answer then (st, [Confirm ''Clear chat history?''])
      else
        case await (agentService_deleteSession userId userId) out [Confirm ''Clear chat history?''] of
          (Inr _, log) \<Rightarrow> (st\<lparr>messages := []\<rparr>, log)
        | (Inl e, log) \<Rightarrow> (st, log @ [ConsoleError ''Failed to clear session:'' e]))"

section \<open>Library page (\<open>pages/Home.jsx\<close>)\<close>

text \<open>The body of \<open>GET /embedding/collections\<close>: \<open>{ total, collections }\<close>; a missing
  \<open>collections\<close> field is \<open>None\<close>.\<close>

datatype list_data = ListData (total: nat) (data_collections: "collection list option")

text \<open>The \<open>useState\<close> cells of \<open>Home\<close>.\<close>

record home_state =
  books :: "collection list"
  loading :: bool
  isUploadModalOpen :: bool
  uploading :: bool
  selectedFile :: "js_file option"

text \<open>\<open>fetchBooks\<close> up to its \<open>await\<close>, and from the moment the listing settles
  (\<open>data.collections || []\<close>, \<open>catch\<close>, \<open>finally\<close>). A \<open>null\<close> body makes
  \<open>data.collections\<close> throw inside the \<open>try\<close>.\<close>

definition fetchBooks_begin :: "home_state \<Rightarrow> home_state \<times> request" where
  "fetchBooks_begin st = (st\<lparr>loading := True\<rparr>, embeddingService_listCollections)"

definition fetchBooks_settle :: "request \<Rightarrow> list_data option outcome \<Rightarrow> home_state \<Rightarrow> home_state \<times> event list" where
  "fetchBooks_settle req out st =
     (case out of
        Resolved (Some d) \<Rightarrow>
          (st\<lparr>books := (case data_collections d of Some cs \<Rightarrow> cs | None \<Rightarrow> []),
              loading := False\<rparr>,
           [Fulfilled req])
      | Resolved None \<Rightarrow>
          (st\<lparr>loading := False\<rparr>,
           [Fulfilled req, ConsoleError ''Failed to fetch books:'' (TypeError ''data is null'')])
      | Rejected e \<Rightarrow>
          (st\<lparr>loading := False\<rparr>,
           [Failed req e, ConsoleError ''Failed to fetch books:'' e]))"

definition fetchBooks :: "list_data option outcome \<Rightarrow> home_state \<Rightarrow> home_state \<times> event list" where
  "fetchBooks out st =
     (let (st1, req) = fetchBooks_begin st;
          (st2, evs) = fetchBooks_settle req out st1
      in (st2, Issued req # evs))"

text \<open>The one \<open>catch\<close> block of \<open>handleUpload\<close>, followed by its \<open>finally\<close>: whichever
  awaited call threw, the error arrives here.\<close>

definition handleUpload_catch :: "js_error \<Rightarrow> home_state \<Rightarrow> event list \<Rightarrow> home_state \<times> event list" where
  "handleUpload_catch e st log =
     (st\<lparr>uploading := False\<rparr>,
      log @ [ConsoleError ''Upload failed:'' e, Alert (''Upload failed: '' @ message e)])"

text \<open>\<open>handleUpload\<close>. \<open>fetchBooks()\<close> is called without \<open>await\<close>: it runs to its own
  \<open>await\<close>, the \<open>finally\<close> of \<open>handleUpload\<close> runs, and the listing settles later.\<close>

definition handleUpload :: "string \<Rightarrow> unit outcome \<Rightarrow> unit outcome \<Rightarrow> list_data option outcome \<Rightarrow> home_state \<Rightarrow> home_state \<times> event list" where
  "handleUpload userId up idx lst st =
     (case selectedFile st of
        None \<Rightarrow> (st, [])
      | Some file \<Rightarrow>
          if userId = [] then (st, [])
          else
            let st1 = st\<lparr>uploading := True\<rparr> in
            case await (pdfService_uploadPdf file userId) up [] of
              (Inl e, log1) \<Rightarrow> handleUpload_catch e st1 log1
            | (Inr _, log1) \<Rightarrow>
                let bookName = replace ''.pdf'' [] (name file) in
                case await (embeddingService_indexBook bookName userId) idx log1 of
                  (Inl e, log2) \<Rightarrow> handleUpload_catch e st1 log2
                | (Inr _, log2) \<Rightarrow>
                    let st2 = st1\<lparr>isUploadModalOpen := False, selectedFile := None\<rparr>;
                        (st3, req) = fetchBooks_begin st2;
                        st4 = st3\<lparr>uploading := False\<rparr>;
                        (st5, evs) = fetchBooks_settle req lst st4
                    in (st5, log2 @ Issued req # evs))"

text \<open>\<open>handleDelete\<close>; \<open>answer\<close> is what the user answers to the confirm dialog. Both
  awaited deletes share one \<open>catch\<close>, which only writes to the console.\<close>

definition handleDelete_catch :: "js_error \<Rightarrow> home_state \<Rightarrow> event list \<Rightarrow> home_state \<times> event list" where
  "handleDelete_catch e st log = (st, log @ [ConsoleError ''Delete failed:'' e])"

definition handleDelete :: "string \<Rightarrow> bool \<Rightarrow> unit outcome \<Rightarrow> unit outcome \<Rightarrow> list_data option outcome \<Rightarrow> string \<Rightarrow> home_state \<Rightarrow> home_state \<times> event list" where
  "handleDelete userId answer dc dp lst bookName st =
     (let question = ''Are you sure you want to delete '' @ [CHR 0x22] @ bookName @ [CHR 0x22] @ ''?''
      in if \<not> answer then (st, [Confirm question])
         else
           case await (embeddingService_deleteCollection bookName) dc [Confirm question] of
             (Inl e, log1) \<Rightarrow> handleDelete_catch e st log1
           | (Inr _, log1) \<Rightarrow>
               case await (pdfService_deleteProcessedBook bookName userId) dp log1 of
                 (Inl e, log2) \<Rightarrow> handleDelete_catch e st log2
               | (Inr _, log2) \<Rightarrow>
                   (let (st', evs) = fetchBooks lst st in (st', log2 @ evs)))"

section \<open>What the specification adds to the code\<close>

text \<open>The specification's wording of the book name: the file name with its extension
  stripped, the extension being what follows the last dot.\<close>

definition strip_extension_spec :: "string \<Rightarrow> string" where
  "strip_extension_spec f =
     (if CHR ''.'' \<in> set f then rev (tl (dropWhile (\<lambda>c. c \<noteq> CHR ''.'') (rev f))) else f)"

text \<open>Modelled from the spec: the indexing service's own catalogue of collections, which is
  backend code and not among the client's sources. The catalogue is the list of collection
  names; a fulfilled delete-collection removes the name, a fulfilled index-book adds it if
  it is new, and no call to the processing service or to the assistant touches it.\<close>

fun indexing_serve :: "request \<Rightarrow> string list \<Rightarrow> string list" where
  "indexing_serve (DeleteCollection n) names = removeAll n names"
| "indexing_serve (IndexBook n u f) names = (if n \<in> set names then names else names @ [n])"
| "indexing_serve r names = names"

text \<open>Modelled from the spec: the catalogue after the fulfilled requests of a log, in order.\<close>

fun indexing_after :: "event list \<Rightarrow> string list \<Rightarrow> string list" where
  "indexing_after [] names = names"
| "indexing_after (Fulfilled r # evs) names = indexing_after evs (indexing_serve r names)"
| "indexing_after (ev # evs) names = indexing_after evs names"

section \<open>Sample inputs\<close>

definition network_error :: js_error where
  "network_error = AxiosError ''Network Error''"

definition sample_chat :: chat_state where
  "sample_chat =
     \<lparr>messages = [\<lparr>role = User, content = ''hi'', artifacts = None\<rparr>], input = ''X'',
      loading_c = False, collections = [], selectedCollection = Some ''bookA''\<rparr>"

definition sample_file :: js_file where
  "sample_file = \<lparr>name = ''physics.pdf'', size_bytes = 1024\<rparr>"

definition sample_books :: "collection list" where
  "sample_books =
     [\<lparr>name_c = ''physics'', total_chapters = 3, total_images = 7\<rparr>,
      \<lparr>name_c = ''maths'', total_chapters = 5, total_images = 0\<rparr>]"

definition sample_home :: home_state where
  "sample_home =
     \<lparr>books = sample_books, loading = False, isUploadModalOpen = True, uploading = False,
      selectedFile = Some sample_file\<rparr>"

section \<open>Auxiliary facts\<close>

lemmas chat_defs = handleSend_def handleSend_begin_def handleSend_settle_def
  handleClearSession_def await_def Let_def agentService_chat_def agentService_deleteSession_def

lemmas home_defs = handleUpload_def handleUpload_catch_def handleDelete_def handleDelete_catch_def
  fetchBooks_def fetchBooks_begin_def fetchBooks_settle_def await_def Let_def
  pdfService_uploadPdf_def pdfService_deleteProcessedBook_def embeddingService_indexBook_def
  embeddingService_listCollections_def embeddingService_deleteCollection_def

lemmas sample_defs = network_error_def sample_chat_def sample_file_def sample_books_def
  sample_home_def trim_def js_whitespace_def

lemma trim_whitespace_only:
  assumes "\<forall>c\<in>set s. js_whitespace c"
  shows "trim s = []"
proof -
  from assms have d: "dropWhile js_whitespace s = []" by (induction s) simp_all
  show ?thesis unfolding trim_def d by simp
qed

lemma handleSend_begin_None_iff:
  "handleSend_begin userId st = None \<longleftrightarrow> trim (input st) = [] \<or> userId = []"
  by (simp add: handleSend_begin_def Let_def)

text \<open>A chat request goes out exactly when the guard of \<open>handleSend\<close> lets the call through.\<close>

lemma handleSend_issued_iff:
  "(\<exists>r. Issued r \<in> set (snd (handleSend userId out st))) \<longleftrightarrow>
     trim (input st) \<noteq> [] \<and> userId \<noteq> []"
  by (auto simp: chat_defs split: prod.splits)

section \<open>Chat page: the claims\<close>

text \<open>
  Claim C9. A send whose text is empty or consists of white space only, or that happens
  while the user identity is still the empty string, does nothing: the state (transcript
  and input box included) is returned as it was and no event, so no chat request, occurs.
\<close>

theorem handleSend_rejected_is_noop:
  assumes "(\<forall>c\<in>set (input st). js_whitespace c) \<or> userId = []"
  shows "handleSend userId out st = (st, [])"
proof -
  from assms have "trim (input st) = [] \<or> userId = []"
    using trim_whitespace_only by blast
  then have "handleSend_begin userId st = None"
    by (simp add: handleSend_begin_None_iff)
  then show ?thesis by (simp add: handleSend_def)
qed

theorem handleSend_rejected_is_noop_witness:
  "((\<forall>c\<in>set (input (sample_chat\<lparr>input := ''  ''\<rparr>)). js_whitespace c) \<or> ''u1'' = [])
   \<and> handleSend ''u1'' (Rejected network_error) (sample_chat\<lparr>input := ''  ''\<rparr>)
       = (sample_chat\<lparr>input := ''  ''\<rparr>, [])
   \<and> ((\<forall>c\<in>set (input sample_chat). js_whitespace c) \<or> [] = ([] :: string))
   \<and> handleSend [] (Rejected network_error) sample_chat = (sample_chat, [])"
proof -
  have h1: "(\<forall>c\<in>set (input (sample_chat\<lparr>input := ''  ''\<rparr>)). js_whitespace c) \<or> ''u1'' = []"
    by (simp add: sample_defs)
  have h2: "(\<forall>c\<in>set (input sample_chat). js_whitespace c) \<or> [] = ([] :: string)"
    by simp
  from h1 handleSend_rejected_is_noop [OF h1, of "Rejected network_error"]
       h2 handleSend_rejected_is_noop [OF h2, of "Rejected network_error"]
  show ?thesis by blast
qed

text \<open>
  Claim C4. When a send of a non-empty text \<open>X\<close> issues its chat request and that request
  fails, the user message \<open>X\<close> is already in the transcript while the request is pending,
  and the final transcript is the old one followed by the user message \<open>X\<close> and one
  system message reporting the failure: among the messages added there is exactly one of
  role system and none of role assistant.
\<close>

theorem handleSend_failure_transcript:
  assumes "input st = X" and "X \<noteq> []"
    and "Failed r e \<in> set (snd (handleSend userId out st))"
  shows "(\<exists>st1 req. handleSend_begin userId st = Some (st1, req) \<and>
            messages st1 = messages st @ [\<lparr>role = User, content = X, artifacts = None\<rparr>]) \<and>
         messages (fst (handleSend userId out st)) =
           messages st @
           [\<lparr>role = User, content = X, artifacts = None\<rparr>,
            \<lparr>role = System, content = ''Error: Failed to get response from agent.'',
             artifacts = None\<rparr>] \<and>
         length (filter (\<lambda>m. role m = System)
            (drop (length (messages st)) (messages (fst (handleSend userId out st))))) = 1 \<and>
         filter (\<lambda>m. role m = Assistant)
            (drop (length (messages st)) (messages (fst (handleSend userId out st)))) = []"
  using assms
  by (auto simp: chat_defs split: option.splits outcome.splits if_splits)

theorem handleSend_failure_transcript_witness:
  "input sample_chat = ''X'' \<and> ''X'' \<noteq> [] \<and>
   Failed (agentService_chat ''u1'' ''u1'' ''X'' (Some ''bookA'')) network_error
     \<in> set (snd (handleSend ''u1'' (Rejected network_error) sample_chat)) \<and>
   messages (fst (handleSend ''u1'' (Rejected network_error) sample_chat)) =
     [\<lparr>role = User, content = ''hi'', artifacts = None\<rparr>,
      \<lparr>role = User, content = ''X'', artifacts = None\<rparr>,
      \<lparr>role = System, content = ''Error: Failed to get response from agent.'',
       artifacts = None\<rparr>]"
proof -
  have h1: "input sample_chat = ''X''" by (simp add: sample_defs)
  have h2: "''X'' \<noteq> []" by simp
  have h3: "Failed (agentService_chat ''u1'' ''u1'' ''X'' (Some ''bookA'')) network_error
     \<in> set (snd (handleSend ''u1'' (Rejected network_error) sample_chat))"
    by (simp add: chat_defs sample_defs)
  have m: "messages sample_chat = [\<lparr>role = User, content = ''hi'', artifacts = None\<rparr>]"
    by (simp add: sample_defs)
  from handleSend_failure_transcript [OF h1 h2 h3]
  have "messages (fst (handleSend ''u1'' (Rejected network_error) sample_chat)) =
     messages sample_chat @
     [\<lparr>role = User, content = ''X'', artifacts = None\<rparr>,
      \<lparr>role = System, content = ''Error: Failed to get response from agent.'',
       artifacts = None\<rparr>]" by blast
  with h1 h2 h3 m show ?thesis by simp
qed

text \<open>
  Claim C8. Every chat request that \<open>handleSend\<close> issues is the \<open>POST /agent/chat\<close> whose
  body carries in \<open>db_name\<close> the collection selected when the send started: the name when
  one is selected, \<open>null\<close> when none is.
\<close>

theorem handleSend_db_name:
  assumes "Issued r \<in> set (snd (handleSend userId out st))"
  shows "\<exists>b. wire r = (POST, ''/agent/chat'', ChatJson b) \<and>
             db_name b = selectedCollection st \<and>
             r = agentService_chat userId userId (input st) (selectedCollection st)"
  using assms
  by (auto simp: chat_defs split: option.splits outcome.splits if_splits)

theorem handleSend_db_name_witness:
  "Issued (agentService_chat ''u1'' ''u1'' ''X'' (Some ''bookA''))
     \<in> set (snd (handleSend ''u1'' (Resolved None) sample_chat)) \<and>
   (\<exists>b. wire (agentService_chat ''u1'' ''u1'' ''X'' (Some ''bookA'')) =
           (POST, ''/agent/chat'', ChatJson b) \<and> db_name b = Some ''bookA'') \<and>
   Issued (agentService_chat ''u1'' ''u1'' ''X'' None)
     \<in> set (snd (handleSend ''u1'' (Resolved None) (sample_chat\<lparr>selectedCollection := None\<rparr>))) \<and>
   (\<exists>b. wire (agentService_chat ''u1'' ''u1'' ''X'' None) =
           (POST, ''/agent/chat'', ChatJson b) \<and> db_name b = None)"
proof -
  have h1: "Issued (agentService_chat ''u1'' ''u1'' ''X'' (Some ''bookA''))
     \<in> set (snd (handleSend ''u1'' (Resolved None) sample_chat))"
    by (simp add: chat_defs sample_defs)
  have h2: "Issued (agentService_chat ''u1'' ''u1'' ''X'' None)
     \<in> set (snd (handleSend ''u1'' (Resolved None) (sample_chat\<lparr>selectedCollection := None\<rparr>)))"
    by (simp add: chat_defs sample_defs)
  have s1: "selectedCollection sample_chat = Some ''bookA''"
    and s2: "selectedCollection (sample_chat\<lparr>selectedCollection := None\<rparr>) = None"
    by (simp_all add: sample_defs)
  from handleSend_db_name [OF h1] s1
  have c1: "\<exists>b. wire (agentService_chat ''u1'' ''u1'' ''X'' (Some ''bookA'')) =
           (POST, ''/agent/chat'', ChatJson b) \<and> db_name b = Some ''bookA''" by auto
  from handleSend_db_name [OF h2] s2
  have c2: "\<exists>b. wire (agentService_chat ''u1'' ''u1'' ''X'' None) =
           (POST, ''/agent/chat'', ChatJson b) \<and> db_name b = None" by auto
  from h1 c1 h2 c2 show ?thesis by blast
qed

text \<open>
  Claim C3, as the code has it. When the user confirms and the session-deletion request
  succeeds, the local transcript is empty afterwards; when the request fails, the state,
  and with it the transcript, is left as it was and the failure is written to the console.
\<close>

theorem handleClearSession_transcript:
  "messages (fst (handleClearSession userId True (Resolved v) st)) = [] \<and>
   fst (handleClearSession userId True (Rejected e) st) = st \<and>
   report (snd (handleClearSession userId True (Rejected e) st)) =
     [ConsoleError ''Failed to clear session:'' e]"
  by (simp add: chat_defs)

text \<open>
  Claim C3, as the specification states it, fails: after a confirmed clear whose request
  is rejected, the transcript still holds the earlier message.
\<close>

theorem handleClearSession_failure_keeps_transcript:
  "messages (fst (handleClearSession ''u1'' True (Rejected network_error) sample_chat)) =
     [\<lparr>role = User, content = ''hi'', artifacts = None\<rparr>] \<and>
   messages (fst (handleClearSession ''u1'' True (Rejected network_error) sample_chat)) \<noteq> []"
  by (simp add: chat_defs sample_defs)

section \<open>Library page: the claims\<close>

text \<open>
  Claim C10. When the collection-delete request of a delete is rejected, the only request
  the run issues is that collection delete: nothing is sent to the document-processing
  service, no catalogue listing is requested, and the state, with it the displayed list of
  books, is left as it was.
\<close>

theorem handleDelete_collection_rejected:
  assumes "Failed (DeleteCollection bookName) e
             \<in> set (snd (handleDelete userId answer dc dp lst bookName st))"
  shows "issued (snd (handleDelete userId answer dc dp lst bookName st)) =
           [DeleteCollection bookName] \<and>
         (\<forall>b u. DeleteProcessedBook b u
             \<notin> set (issued (snd (handleDelete userId answer dc dp lst bookName st)))) \<and>
         ListCollections \<notin> set (issued (snd (handleDelete userId answer dc dp lst bookName st))) \<and>
         fst (handleDelete userId answer dc dp lst bookName st) = st \<and>
         books (fst (handleDelete userId answer dc dp lst bookName st)) = books st"
  using assms
  by (auto simp: home_defs split: option.splits outcome.splits if_splits)

theorem handleDelete_collection_rejected_witness:
  "Failed (DeleteCollection ''physics'') network_error
     \<in> set (snd (handleDelete ''u1'' True (Rejected network_error) (Resolved ())
                   (Resolved None) ''physics'' sample_home)) \<and>
   issued (snd (handleDelete ''u1'' True (Rejected network_error) (Resolved ())
                   (Resolved None) ''physics'' sample_home)) = [DeleteCollection ''physics''] \<and>
   books (fst (handleDelete ''u1'' True (Rejected network_error) (Resolved ())
                   (Resolved None) ''physics'' sample_home)) = sample_books"
proof -
  have h: "Failed (DeleteCollection ''physics'') network_error
     \<in> set (snd (handleDelete ''u1'' True (Rejected network_error) (Resolved ())
                   (Resolved None) ''physics'' sample_home))"
    by (simp add: home_defs)
  have b: "books sample_home = sample_books" by (simp add: sample_home_def)
  from h handleDelete_collection_rejected [OF h] b show ?thesis by simp
qed

text \<open>
  Claim C7, as the code has it. When no file is selected, or the user identity is still
  the empty string, \<open>handleUpload\<close> returns at once: no upload request, no index request and
  no other event occurs, the state is unchanged and nothing is reported. When a file is
  selected and the identity is available, the run starts by issuing the upload request
  for that file, whatever the size of the file: the handler never looks at it.
\<close>

theorem handleUpload_without_file:
  "(selectedFile st = None \<or> userId = [] \<longrightarrow>
      handleUpload userId up idx lst st = (st, [])) \<and>
   (\<forall>file. selectedFile st = Some file \<and> userId \<noteq> [] \<longrightarrow>
      (\<exists>rest. snd (handleUpload userId up idx lst st) =
                Issued (UploadPdf file userId) # rest))"
  by (auto simp: home_defs split: option.splits outcome.splits)

theorem handleUpload_without_file_witness:
  "(selectedFile (sample_home\<lparr>selectedFile := None\<rparr>) = None \<or> ''u1'' = []) \<and>
   handleUpload ''u1'' (Resolved ()) (Resolved ()) (Resolved None)
     (sample_home\<lparr>selectedFile := None\<rparr>) = (sample_home\<lparr>selectedFile := None\<rparr>, []) \<and>
   selectedFile (sample_home\<lparr>selectedFile := Some \<lparr>name = ''empty.pdf'', size_bytes = 0\<rparr>\<rparr>) =
     Some \<lparr>name = ''empty.pdf'', size_bytes = 0\<rparr> \<and> ''u1'' \<noteq> [] \<and>
   (\<exists>rest. snd (handleUpload ''u1'' (Resolved ()) (Resolved ()) (Resolved None)
       (sample_home\<lparr>selectedFile := Some \<lparr>name = ''empty.pdf'', size_bytes = 0\<rparr>\<rparr>)) =
     Issued (UploadPdf \<lparr>name = ''empty.pdf'', size_bytes = 0\<rparr> ''u1'') # rest)"
proof -
  have h1: "selectedFile (sample_home\<lparr>selectedFile := None\<rparr>) = None \<or> ''u1'' = []"
    by simp
  have h2: "selectedFile (sample_home\<lparr>selectedFile := Some \<lparr>name = ''empty.pdf'', size_bytes = 0\<rparr>\<rparr>) =
     Some \<lparr>name = ''empty.pdf'', size_bytes = 0\<rparr> \<and> ''u1'' \<noteq> []"
    by simp
  from handleUpload_without_file [where st = "sample_home\<lparr>selectedFile := None\<rparr>"
      and userId = "''u1''" and up = "Resolved ()" and idx = "Resolved ()"
      and lst = "Resolved None"] h1
  have c1: "handleUpload ''u1'' (Resolved ()) (Resolved ()) (Resolved None)
     (sample_home\<lparr>selectedFile := None\<rparr>) = (sample_home\<lparr>selectedFile := None\<rparr>, [])"
    by blast
  from handleUpload_without_file
      [where st = "sample_home\<lparr>selectedFile := Some \<lparr>name = ''empty.pdf'', size_bytes = 0\<rparr>\<rparr>"
      and userId = "''u1''" and up = "Resolved ()" and idx = "Resolved ()"
      and lst = "Resolved None"] h2
  have c2: "\<exists>rest. snd (handleUpload ''u1'' (Resolved ()) (Resolved ()) (Resolved None)
       (sample_home\<lparr>selectedFile := Some \<lparr>name = ''empty.pdf'', size_bytes = 0\<rparr>\<rparr>)) =
     Issued (UploadPdf \<lparr>name = ''empty.pdf'', size_bytes = 0\<rparr> ''u1'') # rest"
    by blast
  from h1 c1 h2 c2 show ?thesis by blast
qed

text \<open>
  Claim C7, as the specification states it, fails: a selected file of zero bytes is
  uploaded and then indexed like any other file.
\<close>

theorem handleUpload_empty_file_is_sent:
  "issued (snd (handleUpload ''u1'' (Resolved ()) (Resolved ()) (Resolved None)
     (sample_home\<lparr>selectedFile := Some \<lparr>name = ''empty.pdf'', size_bytes = 0\<rparr>\<rparr>))) =
   [UploadPdf \<lparr>name = ''empty.pdf'', size_bytes = 0\<rparr> ''u1'',
    IndexBook ''empty'' ''u1'' False, ListCollections]"
  by (simp add: home_defs)

text \<open>
  Claim C1, as the code has it. When the upload request succeeds and the index-book
  request then fails with \<open>e\<close>, the run ends in the one \<open>catch\<close> block of the handler: the
  console line \<open>Upload failed:\<close> with \<open>e\<close> and the alert \<open>Upload failed: \<close> followed by the
  message of \<open>e\<close>. The upload flag is reset and nothing else in the state changes, no
  catalogue listing is requested, and report and final state are those of a run whose
  upload request itself fails with \<open>e\<close>.
\<close>

theorem handleUpload_index_failure_report:
  assumes "Fulfilled (UploadPdf file userId) \<in> set (snd (handleUpload userId up idx lst st))"
      and "Failed (IndexBook b u f) e \<in> set (snd (handleUpload userId up idx lst st))"
  shows "report (snd (handleUpload userId up idx lst st)) =
           [ConsoleError ''Upload failed:'' e, Alert (''Upload failed: '' @ message e)] \<and>
         fst (handleUpload userId up idx lst st) = st\<lparr>uploading := False\<rparr> \<and>
         ListCollections \<notin> set (issued (snd (handleUpload userId up idx lst st))) \<and>
         report (snd (handleUpload userId up idx lst st)) =
           report (snd (handleUpload userId (Rejected e) idx lst st)) \<and>
         fst (handleUpload userId up idx lst st) =
           fst (handleUpload userId (Rejected e) idx lst st)"
  using assms
  by (auto simp: home_defs split: option.splits outcome.splits if_splits)

theorem handleUpload_index_failure_report_witness:
  "Fulfilled (UploadPdf sample_file ''u1'')
     \<in> set (snd (handleUpload ''u1'' (Resolved ()) (Rejected network_error) (Resolved None)
                   sample_home)) \<and>
   Failed (IndexBook ''physics'' ''u1'' False) network_error
     \<in> set (snd (handleUpload ''u1'' (Resolved ()) (Rejected network_error) (Resolved None)
                   sample_home)) \<and>
   report (snd (handleUpload ''u1'' (Resolved ()) (Rejected network_error) (Resolved None)
                   sample_home)) =
     [ConsoleError ''Upload failed:'' network_error, Alert ''Upload failed: Network Error'']"
proof -
  have h1: "Fulfilled (UploadPdf sample_file ''u1'')
     \<in> set (snd (handleUpload ''u1'' (Resolved ()) (Rejected network_error) (Resolved None)
                   sample_home))"
    by (simp add: home_defs sample_home_def sample_file_def)
  have h2: "Failed (IndexBook ''physics'' ''u1'' False) network_error
     \<in> set (snd (handleUpload ''u1'' (Resolved ()) (Rejected network_error) (Resolved None)
                   sample_home))"
    by (simp add: home_defs sample_home_def sample_file_def)
  have m: "''Upload failed: '' @ message network_error = ''Upload failed: Network Error''"
    by (simp add: network_error_def)
  from h1 h2 handleUpload_index_failure_report [OF h1 h2] m show ?thesis by simp
qed

text \<open>
  Claim C1, as the specification states it, fails: a run whose upload succeeds and whose
  indexing fails ends with the same report and the same state as a run whose upload
  fails with the same error, so the two outcomes are not told apart.
\<close>

theorem handleUpload_partial_not_distinct:
  "report (snd (handleUpload ''u1'' (Resolved ()) (Rejected network_error) (Resolved None)
                  sample_home)) =
     [ConsoleError ''Upload failed:'' network_error, Alert ''Upload failed: Network Error''] \<and>
   report (snd (handleUpload ''u1'' (Rejected network_error) (Resolved ()) (Resolved None)
                  sample_home)) =
     [ConsoleError ''Upload failed:'' network_error, Alert ''Upload failed: Network Error''] \<and>
   fst (handleUpload ''u1'' (Resolved ()) (Rejected network_error) (Resolved None) sample_home) =
   fst (handleUpload ''u1'' (Rejected network_error) (Resolved ()) (Resolved None) sample_home)"
  by (simp add: home_defs sample_home_def sample_file_def network_error_def)

text \<open>
  Claim C2, as the code has it. When the collection delete succeeds and the delete request
  to the document-processing service then fails with \<open>e\<close>, the run ends in the one
  \<open>catch\<close> block of the handler: the console line \<open>Delete failed:\<close> with \<open>e\<close> and nothing
  else. The state is unchanged, no catalogue listing is requested, and report and final
  state are those of a run whose collection delete itself fails with \<open>e\<close>.
\<close>

theorem handleDelete_second_failure_report:
  assumes "Fulfilled (DeleteCollection bookName)
             \<in> set (snd (handleDelete userId answer dc dp lst bookName st))"
      and "Failed (DeleteProcessedBook bookName userId) e
             \<in> set (snd (handleDelete userId answer dc dp lst bookName st))"
  shows "report (snd (handleDelete userId answer dc dp lst bookName st)) =
           [ConsoleError ''Delete failed:'' e] \<and>
         fst (handleDelete userId answer dc dp lst bookName st) = st \<and>
         ListCollections \<notin> set (issued (snd (handleDelete userId answer dc dp lst bookName st))) \<and>
         report (snd (handleDelete userId answer dc dp lst bookName st)) =
           report (snd (handleDelete userId True (Rejected e) dp lst bookName st)) \<and>
         fst (handleDelete userId answer dc dp lst bookName st) =
           fst (handleDelete userId True (Rejected e) dp lst bookName st)"
  using assms
  by (auto simp: home_defs split: option.splits outcome.splits if_splits)

theorem handleDelete_second_failure_report_witness:
  "Fulfilled (DeleteCollection ''physics'')
     \<in> set (snd (handleDelete ''u1'' True (Resolved ()) (Rejected network_error)
                   (Resolved None) ''physics'' sample_home)) \<and>
   Failed (DeleteProcessedBook ''physics'' ''u1'') network_error
     \<in> set (snd (handleDelete ''u1'' True (Resolved ()) (Rejected network_error)
                   (Resolved None) ''physics'' sample_home)) \<and>
   report (snd (handleDelete ''u1'' True (Resolved ()) (Rejected network_error)
                   (Resolved None) ''physics'' sample_home)) =
     [ConsoleError ''Delete failed:'' network_error]"
proof -
  have h1: "Fulfilled (DeleteCollection ''physics'')
     \<in> set (snd (handleDelete ''u1'' True (Resolved ()) (Rejected network_error)
                   (Resolved None) ''physics'' sample_home))"
    by (simp add: home_defs)
  have h2: "Failed (DeleteProcessedBook ''physics'' ''u1'') network_error
     \<in> set (snd (handleDelete ''u1'' True (Resolved ()) (Rejected network_error)
                   (Resolved None) ''physics'' sample_home))"
    by (simp add: home_defs)
  from h1 h2 handleDelete_second_failure_report [OF h1 h2] show ?thesis by blast
qed

text \<open>
  Claim C2, as the specification states it, fails: a delete whose collection delete
  succeeds and whose second delete fails ends with the same console line and the same
  state as a delete whose collection delete fails with the same error, and the user is
  shown nothing.
\<close>

theorem handleDelete_partial_not_distinct:
  "report (snd (handleDelete ''u1'' True (Resolved ()) (Rejected network_error)
                  (Resolved None) ''physics'' sample_home)) =
     [ConsoleError ''Delete failed:'' network_error] \<and>
   report (snd (handleDelete ''u1'' True (Rejected network_error) (Resolved ())
                  (Resolved None) ''physics'' sample_home)) =
     [ConsoleError ''Delete failed:'' network_error] \<and>
   fst (handleDelete ''u1'' True (Resolved ()) (Rejected network_error)
          (Resolved None) ''physics'' sample_home) =
   fst (handleDelete ''u1'' True (Rejected network_error) (Resolved ())
          (Resolved None) ''physics'' sample_home)"
  by (simp add: home_defs)

text \<open>A file name that ends in \<open>.pdf\<close> and has no earlier \<open>.pdf\<close> loses exactly that ending.\<close>

lemma pdf_prefix_of_append:
  assumes "prefix ''.pdf'' (xs @ ''.pdf'')" and "xs \<noteq> []"
  shows "prefix ''.pdf'' xs"
proof (cases "4 \<le> length xs")
  case True
  from assms(1) obtain zs where zs: "xs @ ''.pdf'' = ''.pdf'' @ zs"
    by (auto simp: prefix_def)
  have "take 4 xs = take 4 (xs @ ''.pdf'')" using True by simp
  also have "\<dots> = take 4 (''.pdf'' @ zs)" by (simp only: zs)
  also have "\<dots> = ''.pdf''" by simp
  finally have "take 4 xs = ''.pdf''" .
  then show ?thesis by (metis take_is_prefix)
next
  case False
  then consider a where "xs = [a]" | a b where "xs = [a, b]" | a b c where "xs = [a, b, c]"
    using assms(2)
    by (cases xs; cases "tl xs"; cases "tl (tl xs)"; cases "tl (tl (tl xs))") auto
  then show ?thesis using assms(1) by cases auto
qed

lemma replace_pdf_suffix:
  "\<not> sublist ''.pdf'' base \<Longrightarrow> replace ''.pdf'' [] (base @ ''.pdf'') = base"
proof (induction base)
  case Nil
  show ?case by simp
next
  case (Cons c cs)
  from Cons.prems have np: "\<not> prefix ''.pdf'' (c # cs)" and ns: "\<not> sublist ''.pdf'' cs"
    by (simp_all add: sublist_Cons_right)
  have "\<not> prefix ''.pdf'' ((c # cs) @ ''.pdf'')"
    using np pdf_prefix_of_append[of "c # cs"] by blast
  then have np2: "\<not> prefix ''.pdf'' (c # (cs @ ''.pdf''))"
    unfolding append_Cons .
  have "replace ''.pdf'' [] (c # (cs @ ''.pdf'')) = c # replace ''.pdf'' [] (cs @ ''.pdf'')"
    by (subst replace.simps(2)) (simp only: np2 if_False)
  then show ?case using Cons.IH[OF ns] by (simp only: append_Cons)
qed

lemma strip_extension_spec_pdf: "strip_extension_spec (base @ ''.pdf'') = base"
  by (simp add: strip_extension_spec_def)

text \<open>
  Claim C6, as the code has it. When the selected file is named \<open>base.pdf\<close> and \<open>base\<close>
  itself contains no \<open>.pdf\<close>, every index-book request of the run carries \<open>base\<close> as its
  book name, which is the file name with its extension stripped.
\<close>

theorem handleUpload_book_name:
  assumes "Issued (IndexBook b u f) \<in> set (snd (handleUpload userId up idx lst st))"
    and "selectedFile st = Some file"
    and "name file = base @ ''.pdf''" and "\<not> sublist ''.pdf'' base"
  shows "b = base \<and> b = strip_extension_spec (name file)"
proof -
  have "replace ''.pdf'' [] (name file) = base"
    using assms(3,4) by (simp add: replace_pdf_suffix)
  moreover have "b = replace ''.pdf'' [] (name file)"
    using assms(1,2)
    by (auto simp: home_defs split: option.splits outcome.splits if_splits)
  ultimately show ?thesis using assms(3) by (simp add: strip_extension_spec_pdf)
qed

theorem handleUpload_book_name_witness:
  "Issued (IndexBook ''physics'' ''u1'' False)
     \<in> set (snd (handleUpload ''u1'' (Resolved ()) (Resolved ()) (Resolved None) sample_home)) \<and>
   selectedFile sample_home = Some sample_file \<and>
   name sample_file = ''physics'' @ ''.pdf'' \<and> \<not> sublist ''.pdf'' ''physics'' \<and>
   ''physics'' = strip_extension_spec (name sample_file)"
proof -
  have h1: "Issued (IndexBook ''physics'' ''u1'' False)
     \<in> set (snd (handleUpload ''u1'' (Resolved ()) (Resolved ()) (Resolved None) sample_home))"
    by (simp add: home_defs sample_home_def sample_file_def)
  have h2: "selectedFile sample_home = Some sample_file" by (simp add: sample_home_def)
  have h3: "name sample_file = ''physics'' @ ''.pdf''" by (simp add: sample_file_def)
  have h4: "\<not> sublist ''.pdf'' ''physics''" by (simp add: sublist_Cons_right)
  from h1 h2 h3 h4 handleUpload_book_name [OF h1 h2 h3 h4] show ?thesis by blast
qed

text \<open>
  Claim C6, as the specification states it, fails: only the text \<open>.pdf\<close> is ever removed,
  so a file with another extension is indexed under its full name.
\<close>

theorem handleUpload_book_name_keeps_extension:
  "issued (snd (handleUpload ''u1'' (Resolved ()) (Resolved ()) (Resolved None)
     (sample_home\<lparr>selectedFile := Some \<lparr>name = ''notes.txt'', size_bytes = 12\<rparr>\<rparr>))) =
   [UploadPdf \<lparr>name = ''notes.txt'', size_bytes = 12\<rparr> ''u1'',
    IndexBook ''notes.txt'' ''u1'' False, ListCollections] \<and>
   strip_extension_spec ''notes.txt'' = ''notes'' \<and>
   ''notes.txt'' \<noteq> strip_extension_spec ''notes.txt''"
  by (simp add: home_defs strip_extension_spec_def)

text \<open>The replacement acts on the first \<open>.pdf\<close> and on that spelling only.\<close>

lemma replace_first_pdf_only:
  "replace ''.pdf'' [] ''vol.pdf.scan.pdf'' = ''vol.scan.pdf'' \<and>
   replace ''.pdf'' [] ''Book.PDF'' = ''Book.PDF''"
  by simp

text \<open>
  Claim C5. In a delete the user has confirmed, the first request is the collection delete
  and the next event is its settling. In every run, whatever was logged before a delete
  request to the document-processing service goes out contains the fulfilment of the
  collection delete. And at any moment of the run after that fulfilment (the second delete
  pending, failed or done), the catalogue of the indexing service does not hold the book,
  so a listing taken from it then puts no book of that name on the page.
\<close>

theorem handleDelete_collection_first:
  "(answer \<longrightarrow>
      (\<exists>q ev rest. snd (handleDelete userId answer dc dp lst bookName st) =
          Confirm q # Issued (DeleteCollection bookName) # ev # rest \<and>
          (ev = Fulfilled (DeleteCollection bookName) \<or>
           (\<exists>e. ev = Failed (DeleteCollection bookName) e)))) \<and>
   (\<forall>pre post b u.
      snd (handleDelete userId answer dc dp lst bookName st) =
        pre @ Issued (DeleteProcessedBook b u) # post \<longrightarrow>
      Fulfilled (DeleteCollection bookName) \<in> set pre) \<and>
   (\<forall>pre names cols t st'.
      prefix pre (snd (handleDelete userId answer dc dp lst bookName st)) \<and>
      Fulfilled (DeleteCollection bookName) \<in> set pre \<and>
      map name_c cols = indexing_after pre names \<longrightarrow>
      bookName \<notin> set (indexing_after pre names) \<and>
      bookName \<notin> name_c ` set (books (fst (fetchBooks
                      (Resolved (Some (ListData t (Some cols)))) st'))))"
proof (intro conjI allI impI)
  assume answer
  then show "\<exists>q ev rest. snd (handleDelete userId answer dc dp lst bookName st) =
          Confirm q # Issued (DeleteCollection bookName) # ev # rest \<and>
          (ev = Fulfilled (DeleteCollection bookName) \<or>
           (\<exists>e. ev = Failed (DeleteCollection bookName) e))"
    by (auto simp: home_defs split: option.splits outcome.splits)
next
  fix pre post b u
  assume "snd (handleDelete userId answer dc dp lst bookName st) =
        pre @ Issued (DeleteProcessedBook b u) # post"
  then show "Fulfilled (DeleteCollection bookName) \<in> set pre"
    by (auto simp: home_defs Cons_eq_append_conv split: option.splits outcome.splits if_splits)
next
  fix pre names and cols :: "collection list" and t :: nat and st' :: home_state
  assume a: "prefix pre (snd (handleDelete userId answer dc dp lst bookName st)) \<and>
      Fulfilled (DeleteCollection bookName) \<in> set pre \<and>
      map name_c cols = indexing_after pre names"
  then show n: "bookName \<notin> set (indexing_after pre names)"
    by (auto simp: home_defs prefix_Cons split: option.splits outcome.splits if_splits)
  from a have "set (map name_c cols) = set (indexing_after pre names)" by simp
  with n have "bookName \<notin> set (map name_c cols)" by simp
  then show "bookName \<notin> name_c ` set (books (fst (fetchBooks
                      (Resolved (Some (ListData t (Some cols)))) st')))"
    by (simp add: fetchBooks_def fetchBooks_begin_def fetchBooks_settle_def)
qed

theorem handleDelete_collection_first_witness:
  "snd (handleDelete ''u1'' True (Resolved ()) (Rejected network_error) (Resolved None)
          ''physics'' sample_home) =
     [Confirm (''Are you sure you want to delete '' @ [CHR 0x22] @ ''physics'' @ [CHR 0x22] @ ''?''),
      Issued (DeleteCollection ''physics''), Fulfilled (DeleteCollection ''physics'')] @
     Issued (DeleteProcessedBook ''physics'' ''u1'') #
     [Failed (DeleteProcessedBook ''physics'' ''u1'') network_error,
      ConsoleError ''Delete failed:'' network_error] \<and>
   Fulfilled (DeleteCollection ''physics'') \<in> set
     [Confirm (''Are you sure you want to delete '' @ [CHR 0x22] @ ''physics'' @ [CHR 0x22] @ ''?''),
      Issued (DeleteCollection ''physics''), Fulfilled (DeleteCollection ''physics'')] \<and>
   map name_c [\<lparr>name_c = ''maths'', total_chapters = 5, total_images = 0\<rparr>] =
     indexing_after
       [Confirm (''Are you sure you want to delete '' @ [CHR 0x22] @ ''physics'' @ [CHR 0x22] @ ''?''),
        Issued (DeleteCollection ''physics''), Fulfilled (DeleteCollection ''physics'')]
       (map name_c sample_books) \<and>
   ''physics'' \<notin> name_c ` set (books (fst (fetchBooks
      (Resolved (Some (ListData 1
         (Some [\<lparr>name_c = ''maths'', total_chapters = 5, total_images = 0\<rparr>])))) sample_home)))"
proof -
  let ?log = "snd (handleDelete ''u1'' True (Resolved ()) (Rejected network_error)
                     (Resolved None) ''physics'' sample_home)"
  let ?pre = "[Confirm (''Are you sure you want to delete '' @ [CHR 0x22] @ ''physics'' @ [CHR 0x22] @ ''?''),
      Issued (DeleteCollection ''physics''), Fulfilled (DeleteCollection ''physics'')]"
  let ?post = "[Failed (DeleteProcessedBook ''physics'' ''u1'') network_error,
      ConsoleError ''Delete failed:'' network_error]"
  let ?cols = "[\<lparr>name_c = ''maths'', total_chapters = 5, total_images = 0\<rparr>]"
  have log: "?log = ?pre @ Issued (DeleteProcessedBook ''physics'' ''u1'') # ?post"
    by (simp add: home_defs)
  have f: "Fulfilled (DeleteCollection ''physics'') \<in> set ?pre" by simp
  have p: "prefix ?pre ?log" unfolding log by simp
  have m: "map name_c ?cols = indexing_after ?pre (map name_c sample_books)"
    by (simp add: sample_books_def)
  note all = handleDelete_collection_first [where answer = True and userId = "''u1''"
      and dc = "Resolved ()" and dp = "Rejected network_error" and lst = "Resolved None"
      and bookName = "''physics''" and st = sample_home]
  from all have first: "\<exists>q ev rest. ?log = Confirm q # Issued (DeleteCollection ''physics'') # ev # rest"
    by blast
  from all log have second: "Fulfilled (DeleteCollection ''physics'') \<in> set ?pre"
    by blast
  from all p f m have third: "''physics'' \<notin> name_c ` set (books (fst (fetchBooks
      (Resolved (Some (ListData 1 (Some ?cols)))) sample_home)))"
    by blast
  from log f m third show ?thesis by blast
qed

end
